theory Spec2Isabelle
  imports Complex_Main
begin

section \<open>Errors\<close>

text \<open>
  The exceptions that \<^verbatim>\<open>flowvision/transforms/functional.py\<close> raises, as values.
  A function that can raise returns \<open>error + 'a\<close>, with \<open>Inl\<close> carrying the exception.
  The string is the message template of the \<^verbatim>\<open>raise\<close> statement.
\<close>

datatype error =
    TypeError string
  | ValueError string
  | KeyError int
  | ZeroDivisionError
  | NotImplementedError string

section \<open>Images\<close>

text \<open>
  An image is either a PIL image or a tensor (\<^verbatim>\<open>isinstance(img, flow.Tensor)\<close>); the
  geometric operations act on its last two axes, height and width. The pixel grid is a
  list of rows; a pixel of type \<open>'a\<close> stands for everything the image stores at one
  (row, column) position (all channels and leading batch axes).
\<close>

datatype variant = PILImage | TensorImage

record 'a Image =
  variant :: variant
  pixels :: "'a list list"

text \<open>
  Modelled from the spec: \<^verbatim>\<open>F_pil._get_image_size\<close> and \<^verbatim>\<open>F_t._get_image_size\<close>
  (the backend modules are not among the sources). The abstraction "exposes size
  (width, height)": the height is the number of rows, the width the length of a row.
\<close>

definition image_height :: "'a Image \<Rightarrow> int" where
  "image_height img = int (length (pixels img))"

definition image_width :: "'a Image \<Rightarrow> int" where
  "image_width img = (case pixels img of [] \<Rightarrow> 0 | row # _ \<Rightarrow> int (length row))"

text \<open>\<^verbatim>\<open>_get_image_size\<close> returns \<^verbatim>\<open>[w, h]\<close>.\<close>

definition get_image_size :: "'a Image \<Rightarrow> int list" where
  "get_image_size img = [image_width img, image_height img]"

text \<open>Every row of a well-formed image has the image's width.\<close>

definition rectangular :: "'a Image \<Rightarrow> bool" where
  "rectangular img = list_all (\<lambda>row. int (length row) = image_width img) (pixels img)"

text \<open>\<open>has_shape img h w\<close>: the image has exactly \<open>h\<close> rows of exactly \<open>w\<close> pixels.\<close>

definition has_shape :: "'a Image \<Rightarrow> int \<Rightarrow> int \<Rightarrow> bool" where
  "has_shape img h w =
     (int (length (pixels img)) = h \<and> list_all (\<lambda>row. int (length row) = w) (pixels img))"

section \<open>Padding, cropping and flipping\<close>

text \<open>
  Modelled from the spec: \<^verbatim>\<open>F_pil.pad\<close> and \<^verbatim>\<open>F_t.pad\<close> in constant mode (the
  backend modules are not among the sources). \<open>pad_ltrb\<close> adds \<open>l\<close>, \<open>t\<close>, \<open>r\<close> and
  \<open>b\<close> pixels of value \<open>fill\<close> on the left, top, right and bottom. The spec gives no
  meaning to a negative amount; it is read as 0 here, and no caller below passes one.
\<close>

definition pad_ltrb :: "'a Image \<Rightarrow> int \<Rightarrow> int \<Rightarrow> int \<Rightarrow> int \<Rightarrow> 'a \<Rightarrow> 'a Image" where
  "pad_ltrb img l t r b fill =
     (let blank = replicate (nat l + nat (image_width img) + nat r) fill
      in img\<lparr>pixels :=
           replicate (nat t) blank
           @ map (\<lambda>row. replicate (nat l) fill @ row @ replicate (nat r) fill) (pixels img)
           @ replicate (nat b) blank\<rparr>)"

text \<open>
  The padding specification is one value (all four sides), two values (left/right,
  top/bottom) or four values (left, top, right, bottom); any other length is a
  validation error. \<open>pad\<close> is \<^verbatim>\<open>pad(img, padding, fill, padding_mode="constant")\<close>.
\<close>

definition pad :: "'a Image \<Rightarrow> int list \<Rightarrow> 'a \<Rightarrow> error + 'a Image" where
  "pad img padding fill =
     (case padding of
        [p] \<Rightarrow> Inr (pad_ltrb img p p p p fill)
      | [lr, tb] \<Rightarrow> Inr (pad_ltrb img lr tb lr tb fill)
      | [l, t, r, b] \<Rightarrow> Inr (pad_ltrb img l t r b fill)
      | _ \<Rightarrow> Inl (ValueError ''Padding must be an int or a 1, 2, or 4 element tuple''))"

text \<open>
  Modelled from the spec: \<^verbatim>\<open>F_pil.crop\<close> and \<^verbatim>\<open>F_t.crop\<close> (the backend modules are
  not among the sources). The sub-region \<open>(top0, left0, height, width)\<close>; where the box
  leaves the source, the source is first padded with a zero border that covers the
  overrun, then cropped.
\<close>

definition crop :: "'a::zero Image \<Rightarrow> int \<Rightarrow> int \<Rightarrow> int \<Rightarrow> int \<Rightarrow> 'a Image" where
  "crop img top0 left0 height width =
     (let pl = max (- left0) 0;
          pt = max (- top0) 0;
          pr = max (left0 + width - image_width img) 0;
          pb = max (top0 + height - image_height img) 0;
          padded = pad_ltrb img pl pt pr pb 0
      in img\<lparr>pixels :=
           map (\<lambda>row. take (nat width) (drop (nat (left0 + pl)) row))
             (take (nat height) (drop (nat (top0 + pt)) (pixels padded)))\<rparr>)"

text \<open>
  Modelled from the spec: the backends' \<^verbatim>\<open>hflip\<close> and \<^verbatim>\<open>vflip\<close>, which reverse the
  width axis and the height axis.
\<close>

definition hflip :: "'a Image \<Rightarrow> 'a Image" where
  "hflip img = img\<lparr>pixels := map rev (pixels img)\<rparr>"

definition vflip :: "'a Image \<Rightarrow> 'a Image" where
  "vflip img = img\<lparr>pixels := rev (pixels img)\<rparr>"

section \<open>Rounding\<close>

text \<open>
  Python 3's \<^verbatim>\<open>round\<close> on a float: to the nearest integer, a tie to the even one.
  Floats are read as reals; the quotients rounded below are halves of integers, which
  floats represent exactly.
\<close>

definition py_round :: "real \<Rightarrow> int" where
  "py_round x =
     (let f = \<lfloor>x\<rfloor>; d = x - of_int f
      in if d < 1 / 2 then f
         else if 1 / 2 < d then f + 1
         else if even f then f else f + 1)"

section \<open>center_crop, five_crop, ten_crop\<close>

text \<open>
  A size argument is a number or a sequence
  (\<^verbatim>\<open>isinstance(size, numbers.Number)\<close>, \<^verbatim>\<open>isinstance(size, (tuple, list))\<close>).
\<close>

datatype size_arg = Num int | Seq "int list"

text \<open>
  The first lines of \<^verbatim>\<open>center_crop\<close>, \<^verbatim>\<open>five_crop\<close> and \<^verbatim>\<open>ten_crop\<close>: a number
  \<open>n\<close> becomes \<open>(n, n)\<close>, a sequence of one element \<open>[x]\<close> becomes \<open>(x, x)\<close>, any
  other sequence stays.
\<close>

definition normalize_size :: "size_arg \<Rightarrow> int list" where
  "normalize_size size0 =
     (case size0 of
        Num n \<Rightarrow> [n, n]
      | Seq xs \<Rightarrow> (if length xs = 1 then [xs ! 0, xs ! 0] else xs))"

text \<open>
  \<^verbatim>\<open>center_crop\<close>, lines 552 to 588. The tuple assignment
  \<^verbatim>\<open>crop_height, crop_width = output_size\<close> raises \<^verbatim>\<open>ValueError\<close> unless the sequence has
  two elements.
\<close>

definition center_crop :: "'a::zero Image \<Rightarrow> size_arg \<Rightarrow> error + 'a Image" where
  "center_crop img output_size =
     (case normalize_size output_size of
        [crop_height, crop_width] \<Rightarrow>
          (let image_width0 = image_width img; image_height0 = image_height img
           in if crop_width > image_width0 \<or> crop_height > image_height0 then
                (let padding_ltrb =
                       [if crop_width > image_width0 then (crop_width - image_width0) div 2 else 0,
                        if crop_height > image_height0 then (crop_height - image_height0) div 2 else 0,
                        if crop_width > image_width0 then (crop_width - image_width0 + 1) div 2 else 0,
                        if crop_height > image_height0 then (crop_height - image_height0 + 1) div 2 else 0]
                 in case pad img padding_ltrb 0 of
                      Inl e \<Rightarrow> Inl e
                    | Inr img1 \<Rightarrow>
                        (let image_width1 = image_width img1; image_height1 = image_height img1
                         in if crop_width = image_width1 \<and> crop_height = image_height1 then Inr img1
                            else
                              (let crop_top = py_round (of_int (image_height1 - crop_height) / 2);
                                   crop_left = py_round (of_int (image_width1 - crop_width) / 2)
                               in Inr (crop img1 crop_top crop_left crop_height crop_width))))
              else
                (let crop_top = py_round (of_int (image_height0 - crop_height) / 2);
                     crop_left = py_round (of_int (image_width0 - crop_width) / 2)
                 in Inr (crop img crop_top crop_left crop_height crop_width)))
      | _ \<Rightarrow> Inl (ValueError ''values to unpack (expected 2)''))"

text \<open>
  \<^verbatim>\<open>five_crop\<close>, lines 663 to 711. The result tuple
  \<^verbatim>\<open>(tl, tr, bl, br, center)\<close> is a list of five images.
\<close>

definition five_crop :: "'a::zero Image \<Rightarrow> size_arg \<Rightarrow> error + 'a Image list" where
  "five_crop img size0 =
     (let size2 = normalize_size size0
      in if length size2 \<noteq> 2 then
           Inl (ValueError ''Please provide only two dimensions (h, w) for size.'')
         else
           (let image_width0 = image_width img; image_height0 = image_height img;
                crop_height = size2 ! 0; crop_width = size2 ! 1
            in if crop_width > image_width0 \<or> crop_height > image_height0 then
                 Inl (ValueError ''Requested crop size {} is bigger than input size {}'')
               else
                 (let tl = crop img 0 0 crop_height crop_width;
                      tr = crop img 0 (image_width0 - crop_width) crop_height crop_width;
                      bl = crop img (image_height0 - crop_height) 0 crop_height crop_width;
                      br = crop img (image_height0 - crop_height) (image_width0 - crop_width)
                             crop_height crop_width
                  in case center_crop img (Seq [crop_height, crop_width]) of
                       Inl e \<Rightarrow> Inl e
                     | Inr center \<Rightarrow> Inr [tl, tr, bl, br, center])))"

text \<open>\<^verbatim>\<open>ten_crop\<close>, lines 714 to 753.\<close>

definition ten_crop :: "'a::zero Image \<Rightarrow> size_arg \<Rightarrow> bool \<Rightarrow> error + 'a Image list" where
  "ten_crop img size0 vertical_flip =
     (let size2 = normalize_size size0
      in if length size2 \<noteq> 2 then
           Inl (ValueError ''Please provide only two dimensions (h, w) for size.'')
         else
           (case five_crop img (Seq size2) of
              Inl e \<Rightarrow> Inl e
            | Inr first_five \<Rightarrow>
                (let img1 = (if vertical_flip then vflip img else hflip img)
                 in case five_crop img1 (Seq size2) of
                      Inl e \<Rightarrow> Inl e
                    | Inr second_five \<Rightarrow> Inr (first_five @ second_five))))"

section \<open>Interpolation modes and resize\<close>

text \<open>The enumeration \<^verbatim>\<open>InterpolationMode\<close>, lines 29 to 39, and the value of each member.\<close>

datatype InterpolationMode = NEAREST | BILINEAR | BICUBIC | BOX | HAMMING | LANCZOS

fun mode_value :: "InterpolationMode \<Rightarrow> string" where
  "mode_value NEAREST = ''nearest''"
| "mode_value BILINEAR = ''bilinear''"
| "mode_value BICUBIC = ''bicubic''"
| "mode_value BOX = ''box''"
| "mode_value HAMMING = ''hamming''"
| "mode_value LANCZOS = ''lanczos''"

text \<open>
  \<^verbatim>\<open>_interpolation_modes_from_int\<close>, lines 42 to 51: a dictionary lookup, which raises
  \<^verbatim>\<open>KeyError\<close> on a key the dictionary does not hold.
\<close>

definition inverse_modes_mapping :: "int \<rightharpoonup> InterpolationMode" where
  "inverse_modes_mapping =
     [0 \<mapsto> NEAREST, 2 \<mapsto> BILINEAR, 3 \<mapsto> BICUBIC, 4 \<mapsto> BOX, 5 \<mapsto> HAMMING, 1 \<mapsto> LANCZOS]"

definition interpolation_modes_from_int :: "int \<Rightarrow> error + InterpolationMode" where
  "interpolation_modes_from_int i =
     (case inverse_modes_mapping i of None \<Rightarrow> Inl (KeyError i) | Some m \<Rightarrow> Inr m)"

text \<open>\<^verbatim>\<open>pil_modes_mapping\<close>, lines 54 to 61; every member of the enumeration is a key.\<close>

fun pil_modes_mapping :: "InterpolationMode \<Rightarrow> int" where
  "pil_modes_mapping NEAREST = 0"
| "pil_modes_mapping BILINEAR = 2"
| "pil_modes_mapping BICUBIC = 3"
| "pil_modes_mapping BOX = 4"
| "pil_modes_mapping HAMMING = 5"
| "pil_modes_mapping LANCZOS = 1"

text \<open>
  The \<^verbatim>\<open>interpolation\<close> argument: an \<^verbatim>\<open>int\<close>, an \<^verbatim>\<open>InterpolationMode\<close>, or a value that
  is neither.
\<close>

datatype interp_arg = IntCode int | Mode InterpolationMode | OtherInterp

definition interpolation_int_warning :: string where
  "interpolation_int_warning =
     ''Argument interpolation should be of type InterpolationMode instead of int. Please, use InterpolationMode enum.''"

definition resample_warning :: string where
  "resample_warning =
     ''Argument resample is deprecated and will be removed since v0.10.0. Please, use interpolation instead''"

text \<open>
  \<^verbatim>\<open>resize\<close>, lines 432 to 472. The result is paired with the warnings that
  \<^verbatim>\<open>warnings.warn\<close> emitted, in order; a warning does not stop the call. The backends
  \<^verbatim>\<open>F_pil.resize\<close> and \<^verbatim>\<open>F_t.resize\<close>, which are not among the sources, are the
  parameters \<open>F_pil_resize\<close> and \<open>F_t_resize\<close>.
\<close>

definition resize ::
  "('a Image \<Rightarrow> size_arg \<Rightarrow> int \<Rightarrow> error + 'a Image) \<Rightarrow>
   ('a Image \<Rightarrow> size_arg \<Rightarrow> string \<Rightarrow> error + 'a Image) \<Rightarrow>
   'a Image \<Rightarrow> size_arg \<Rightarrow> interp_arg \<Rightarrow> string list \<times> (error + 'a Image)" where
  "resize F_pil_resize F_t_resize img size0 interpolation =
     (let (warnings, interpolation1) =
            (case interpolation of
               IntCode i \<Rightarrow>
                 ([interpolation_int_warning], map_sum id Mode (interpolation_modes_from_int i))
             | _ \<Rightarrow> ([], Inr interpolation))
      in case interpolation1 of
           Inl e \<Rightarrow> (warnings, Inl e)
         | Inr (Mode m) \<Rightarrow>
             if variant img \<noteq> TensorImage
             then (warnings, F_pil_resize img size0 (pil_modes_mapping m))
             else (warnings, F_t_resize img size0 (mode_value m))
         | Inr _ \<Rightarrow>
             (warnings, Inl (TypeError ''Argument interpolation should be a InterpolationMode'')))"

section \<open>The inverse affine matrix and rotate\<close>

text \<open>
  Floats are read as reals, and the arithmetic \<open>+\<close>, \<open>-\<close>, \<open>*\<close>, \<open>/\<close> on them as exact.
  The functions of Python's \<^verbatim>\<open>math\<close> module that the source calls are not part of the
  repository and are a parameter: \<open>m_radians\<close>, \<open>m_cos\<close>, \<open>m_sin\<close> and \<open>m_tan\<close> are
  \<^verbatim>\<open>math.radians\<close>, \<^verbatim>\<open>math.cos\<close>, \<^verbatim>\<open>math.sin\<close> and \<^verbatim>\<open>math.tan\<close> as the library computes
  them on floats. They are not the functions of real analysis: no float is an odd
  multiple of \<open>pi / 2\<close>, so \<^verbatim>\<open>math.cos\<close> is never exactly zero and \<^verbatim>\<open>math.tan\<close> has no
  pole (\<^verbatim>\<open>math.tan(math.radians(90))\<close> is about \<open>1.6e16\<close>).
\<close>

record math_module =
  m_radians :: "real \<Rightarrow> real"
  m_cos :: "real \<Rightarrow> real"
  m_sin :: "real \<Rightarrow> real"
  m_tan :: "real \<Rightarrow> real"

text \<open>
  The functions of real analysis as one instance of the parameter, for evaluating
  examples: away from the poles the library's values are these up to rounding, and at 0
  they are these exactly.
\<close>

definition exact_math :: math_module where
  "exact_math = \<lparr>m_radians = (\<lambda>x. x * pi / 180), m_cos = cos, m_sin = sin, m_tan = tan\<rparr>"

text \<open>A tuple assignment \<^verbatim>\<open>x, y = xs\<close> raises \<^verbatim>\<open>ValueError\<close> unless \<open>xs\<close> has two elements.\<close>

definition unpack2 :: "'a list \<Rightarrow> error + 'a \<times> 'a" where
  "unpack2 xs =
     (case xs of [x, y] \<Rightarrow> Inr (x, y) | _ \<Rightarrow> Inl (ValueError ''values to unpack (expected 2)''))"

text \<open>
  \<^verbatim>\<open>_get_inverse_affine_matrix\<close>, lines 850 to 901. Python's \<^verbatim>\<open>/\<close> raises
  \<^verbatim>\<open>ZeroDivisionError\<close> on a zero divisor. The divisor \<^verbatim>\<open>math.cos(sy)\<close> of lines 883 to
  886 is never zero (see above), so these four divisions do not raise; the divisor
  \<open>scale\<close> of line 891 is an argument and can be zero. The four in-place updates of
  \<^verbatim>\<open>matrix[2]\<close> and \<^verbatim>\<open>matrix[5]\<close> are list updates, in the order of the source.
\<close>

definition get_inverse_affine_matrix ::
  "math_module \<Rightarrow> real list \<Rightarrow> real \<Rightarrow> real list \<Rightarrow> real \<Rightarrow> real list \<Rightarrow> error + real list" where
  "get_inverse_affine_matrix math center angle translate scale shear =
     (let rot = m_radians math angle
      in case unpack2 (map (m_radians math) shear) of
           Inl e \<Rightarrow> Inl e
         | Inr (sx, sy) \<Rightarrow>
         (case unpack2 center of
            Inl e \<Rightarrow> Inl e
          | Inr (cx, cy) \<Rightarrow>
          (case unpack2 translate of
             Inl e \<Rightarrow> Inl e
           | Inr (tx, ty) \<Rightarrow>
               (let a = m_cos math (rot - sy) / m_cos math sy;
                    b = - m_cos math (rot - sy) * m_tan math sx / m_cos math sy - m_sin math rot;
                    c = m_sin math (rot - sy) / m_cos math sy;
                    d = - m_sin math (rot - sy) * m_tan math sx / m_cos math sy + m_cos math rot;
                    matrix0 = [d, - b, 0, - c, a, 0]
                in if scale = 0 then Inl ZeroDivisionError
                   else
                     (let matrix1 = map (\<lambda>x. x / scale) matrix0;
                          matrix2 = matrix1[2 := matrix1 ! 2
                                      + (matrix1 ! 0 * (- cx - tx) + matrix1 ! 1 * (- cy - ty))];
                          matrix3 = matrix2[5 := matrix2 ! 5
                                      + (matrix2 ! 3 * (- cx - tx) + matrix2 ! 4 * (- cy - ty))];
                          matrix4 = matrix3[2 := matrix3 ! 2 + cx];
                          matrix5 = matrix4[5 := matrix4 ! 5 + cy]
                      in Inr matrix5)))))"

text \<open>
  \<^verbatim>\<open>rotate\<close>, lines 904 to 986, with the warnings it emitted. The angle is a number and
  the center, when given, a sequence of numbers, so the two \<^verbatim>\<open>TypeError\<close>s about them
  cannot occur. The backend \<^verbatim>\<open>F_pil.rotate\<close>, which is not among the sources, is the
  parameter \<open>F_pil_rotate\<close>; \<open>math\<close> is the \<^verbatim>\<open>math\<close> module the matrix builder calls. For a tensor the function computes the matrix and then
  raises \<^verbatim>\<open>NotImplementedError\<close>; the call of \<^verbatim>\<open>F_t.rotate\<close> after the \<^verbatim>\<open>raise\<close> is
  never reached.
\<close>

definition rotate_img ::
  "math_module \<Rightarrow>
   ('a Image \<Rightarrow> real \<Rightarrow> int \<Rightarrow> bool \<Rightarrow> real list option \<Rightarrow> 'f \<Rightarrow> error + 'a Image) \<Rightarrow>
   'a Image \<Rightarrow> real \<Rightarrow> interp_arg \<Rightarrow> bool \<Rightarrow> real list option \<Rightarrow> 'f \<Rightarrow> int option \<Rightarrow>
   string list \<times> (error + 'a Image)" where
  "rotate_img math F_pil_rotate img angle interpolation expand center fill resample =
     (let (warnings1, interpolation1) =
            (case resample of
               None \<Rightarrow> ([], Inr interpolation)
             | Some r \<Rightarrow> ([resample_warning], map_sum id Mode (interpolation_modes_from_int r)))
      in case interpolation1 of
           Inl e \<Rightarrow> (warnings1, Inl e)
         | Inr interpolation2 \<Rightarrow>
             (let (warnings2, interpolation3) =
                    (case interpolation2 of
                       IntCode i \<Rightarrow>
                         (warnings1 @ [interpolation_int_warning],
                          map_sum id Mode (interpolation_modes_from_int i))
                     | _ \<Rightarrow> (warnings1, Inr interpolation2))
              in case interpolation3 of
                   Inl e \<Rightarrow> (warnings2, Inl e)
                 | Inr (Mode m) \<Rightarrow>
                     if variant img \<noteq> TensorImage
                     then (warnings2,
                           F_pil_rotate img angle (pil_modes_mapping m) expand center fill)
                     else
                       (let center_f =
                              (case center of
                                 None \<Rightarrow> [0, 0]
                               | Some cs \<Rightarrow>
                                   map (\<lambda>(c, s). 1 * (c - of_int s * 0.5))
                                     (zip cs (get_image_size img)))
                        in case get_inverse_affine_matrix math center_f (- angle) [0, 0] 1 [0, 0] of
                             Inl e \<Rightarrow> (warnings2, Inl e)
                           | Inr matrix \<Rightarrow>
                               (warnings2,
                                Inl (NotImplementedError ''Tensor rotate is not implemented yet!'')))
                 | Inr _ \<Rightarrow>
                     (warnings2,
                      Inl (TypeError ''Argument interpolation should be a InterpolationMode''))))"

section \<open>gaussian_blur\<close>

text \<open>
  The \<^verbatim>\<open>kernel_size\<close> argument is an \<^verbatim>\<open>int\<close>, a list or tuple of integers, or something
  else; the \<^verbatim>\<open>sigma\<close> argument, when not \<^verbatim>\<open>None\<close>, is a number, a list or tuple of
  numbers, or something else.
\<close>

datatype kernel_arg = KInt int | KSeq "int list" | KOther

datatype sigma_arg = SNum real | SSeq "real list" | SOther

text \<open>
  Lines 1046 to 1079 of \<^verbatim>\<open>gaussian_blur\<close>: the checks of \<^verbatim>\<open>kernel_size\<close> and \<^verbatim>\<open>sigma\<close>,
  which end with the kernel size and the sigma of each axis that are handed to the blur.
\<close>

definition gaussian_blur_params :: "kernel_arg \<Rightarrow> sigma_arg option \<Rightarrow> error + int list \<times> real list" where
  "gaussian_blur_params kernel_size sigma =
     (case kernel_size of
        KOther \<Rightarrow> Inl (TypeError ''kernel_size should be int or a sequence of integers.'')
      | _ \<Rightarrow>
        (let kernel_size1 = (case kernel_size of KInt k \<Rightarrow> [k, k] | KSeq ks \<Rightarrow> ks | KOther \<Rightarrow> [])
         in if length kernel_size1 \<noteq> 2 then
              Inl (ValueError ''If kernel_size is a sequence its length should be 2.'')
            else if list_ex (\<lambda>ksize. ksize mod 2 = 0 \<or> ksize < 0) kernel_size1 then
              Inl (ValueError ''kernel_size should have odd and positive integers.'')
            else
              (let sigma1 =
                     (case sigma of
                        None \<Rightarrow> SSeq (map (\<lambda>ksize. of_int ksize * 0.15 + 0.35) kernel_size1)
                      | Some s \<Rightarrow> s)
               in case sigma1 of
                    SOther \<Rightarrow> Inl (TypeError ''sigma should be either float or sequence of floats.'')
                  | _ \<Rightarrow>
                    (let sigma2 =
                           (case sigma1 of
                              SNum s \<Rightarrow> [s, s]
                            | SSeq ss \<Rightarrow> (if length ss = 1 then [ss ! 0, ss ! 0] else ss)
                            | SOther \<Rightarrow> [])
                     in if length sigma2 \<noteq> 2 then
                          Inl (ValueError ''If sigma is a sequence, its length should be 2.'')
                        else if list_ex (\<lambda>s. s \<le> 0) sigma2 then
                          Inl (ValueError ''sigma should have positive values.'')
                        else Inr (kernel_size1, sigma2)))))"

text \<open>
  \<^verbatim>\<open>gaussian_blur\<close>, lines 1014 to 1092: the checks, then the pixel work. The blur
  \<^verbatim>\<open>F_t.gaussian_blur\<close> of the tensor backend, which is not among the sources, is the
  parameter \<open>F_t_gaussian_blur\<close>; the conversions \<^verbatim>\<open>to_tensor\<close> and \<^verbatim>\<open>to_pil_image\<close>
  between the two representations are parameters as well.
\<close>

definition gaussian_blur ::
  "('a Image \<Rightarrow> int list \<Rightarrow> real list \<Rightarrow> error + 'a Image) \<Rightarrow>
   ('a Image \<Rightarrow> error + 'a Image) \<Rightarrow> ('a Image \<Rightarrow> error + 'a Image) \<Rightarrow>
   'a Image \<Rightarrow> kernel_arg \<Rightarrow> sigma_arg option \<Rightarrow> error + 'a Image" where
  "gaussian_blur F_t_gaussian_blur to_tensor to_pil_image img kernel_size sigma =
     (case gaussian_blur_params kernel_size sigma of
        Inl e \<Rightarrow> Inl e
      | Inr (kernel_size1, sigma2) \<Rightarrow>
          (case (if variant img \<noteq> TensorImage then to_tensor img else Inr img) of
             Inl e \<Rightarrow> Inl e
           | Inr t_img \<Rightarrow>
               (case F_t_gaussian_blur t_img kernel_size1 sigma2 of
                  Inl e \<Rightarrow> Inl e
                | Inr output \<Rightarrow>
                    if variant img \<noteq> TensorImage then to_pil_image output else Inr output)))"

text \<open>
  The kernel size of each axis, as the caller gave it: an \<^verbatim>\<open>int\<close> is the size of both
  axes.
\<close>

definition kernel_axes :: "kernel_arg \<Rightarrow> int list" where
  "kernel_axes kernel_size = (case kernel_size of KInt k \<Rightarrow> [k, k] | KSeq ks \<Rightarrow> ks | KOther \<Rightarrow> [])"

section \<open>normalize\<close>

text \<open>
  Tensors are mutable objects: the heap is the list of the tensors allocated so far, and
  a tensor reference is an index into it. \<^verbatim>\<open>clone\<close> allocates a new tensor with the same
  contents; an in-place operation replaces the contents at one reference and touches no
  other.
\<close>

datatype dtype = Float16 | Float32 | Float64 | Int8 | Int32 | Int64 | UInt8

record tensor =
  dtype :: dtype
  shape :: "nat list"
  data :: "real list"

type_synonym heap = "tensor list"

definition clone :: "heap \<Rightarrow> nat \<Rightarrow> heap \<times> nat" where
  "clone h a = (h @ [h ! a], length h)"

text \<open>
  The argument of \<^verbatim>\<open>normalize\<close> is a PIL image, a tensor (by reference) or something
  else; the result is a numpy array (for a PIL image) or a tensor reference.
\<close>

datatype 'p norm_input = PilInput 'p | TensorInput nat | OtherInput

datatype 'n norm_output = NumpyOut 'n | TensorOut nat

text \<open>
  \<^verbatim>\<open>normalize\<close>, lines 370 to 429, on a heap. \<^verbatim>\<open>flow.float\<close> is \<open>Float32\<close>. The
  arithmetic of the library is a parameter: \<open>pil_normalize\<close> is the numpy computation
  of the PIL branch, and \<open>sub_op\<close>, \<open>div_op\<close> give the new contents of a tensor after
  \<^verbatim>\<open>sub_\<close> and \<^verbatim>\<open>div_\<close> with a broadcast operand (or the error they raise); the
  function stores these contents at the reference the operation is called on. The
  tensors \<^verbatim>\<open>mean\<close> and \<^verbatim>\<open>std\<close> built from the lists are temporaries and are not kept on
  the heap. The conversion of \<^verbatim>\<open>std\<close> to the dtype before the zero test is read as exact.
\<close>

definition normalize_tensor ::
  "('p \<Rightarrow> real list \<Rightarrow> real list \<Rightarrow> 'n) \<Rightarrow>
   (tensor \<Rightarrow> real list \<Rightarrow> error + tensor) \<Rightarrow> (tensor \<Rightarrow> real list \<Rightarrow> error + tensor) \<Rightarrow>
   heap \<Rightarrow> 'p norm_input \<Rightarrow> real list \<Rightarrow> real list \<Rightarrow> bool \<Rightarrow> heap \<times> (error + 'n norm_output)" where
  "normalize_tensor pil_normalize sub_op div_op h input mean std inplace =
     (case input of
        PilInput p \<Rightarrow> (h, Inr (NumpyOut (pil_normalize p mean std)))
      | OtherInput \<Rightarrow> (h, Inl (TypeError ''Input tensor should be a oneflow tensor.''))
      | TensorInput a \<Rightarrow>
          if dtype (h ! a) \<noteq> Float32 then
            (h, Inl (TypeError ''Input tensor should be a float tensor.''))
          else if length (shape (h ! a)) < 3 then
            (h, Inl (ValueError ''Expected tensor to be a tensor image of size (..., C, H, W).''))
          else
            (let (h1, t) = (if \<not> inplace then clone h a else (h, a))
             in if list_ex (\<lambda>s. s = 0) std then
                  (h1, Inl (ValueError
                     ''std evaluated to zero after conversion, leading to division by zero.''))
                else
                  (case sub_op (h1 ! t) mean of
                     Inl e \<Rightarrow> (h1, Inl e)
                   | Inr subtracted \<Rightarrow>
                       (let h2 = h1[t := subtracted]
                        in case div_op (h2 ! t) std of
                             Inl e \<Rightarrow> (h2, Inl e)
                           | Inr divided \<Rightarrow> (h2[t := divided], Inr (TensorOut t))))))"

section \<open>Properties of rounding, padding and cropping\<close>

text \<open>
  Rounding half an integer: an even \<open>n\<close> gives \<open>n div 2\<close> exactly; an odd \<open>n\<close> is a
  tie between \<open>n div 2\<close> and \<open>n div 2 + 1\<close>, and the even one of the two wins.
\<close>

lemma floor_half: "\<lfloor>(of_int n :: real) / 2\<rfloor> = n div 2"
  using floor_divide_of_int_eq[of n 2, where ?'a = real] by simp

lemma py_round_half:
  "py_round (of_int n / 2) =
     (if even n then n div 2 else if even (n div 2) then n div 2 else n div 2 + 1)"
proof (cases "even n")
  case True
  then obtain k where k: "n = 2 * k" by (auto elim: evenE)
  show ?thesis using True by (simp add: py_round_def k)
next
  case False
  then obtain k where k: "n = 2 * k + 1" by (auto elim: oddE)
  have fl: "\<lfloor>(of_int n :: real) / 2\<rfloor> = k" using floor_half[of n] by (simp add: k)
  have d: "(of_int n :: real) / 2 - of_int k = 1 / 2" by (simp add: k field_simps)
  have nk: "n div 2 = k" by (simp add: k)
  show ?thesis using False unfolding py_round_def Let_def fl d nk by simp
qed

lemma py_round_half_bounds:
  assumes "0 \<le> n"
  shows "0 \<le> py_round (of_int n / 2)" and "py_round (of_int n / 2) \<le> n"
  using assms unfolding py_round_half by (auto, presburger+)

text \<open>Padding a rectangular image gives a rectangular image, larger by the amounts.\<close>

lemma image_height_pad_ltrb:
  "image_height (pad_ltrb img l t r b fill) = int (nat t) + image_height img + int (nat b)"
  by (simp add: pad_ltrb_def image_height_def Let_def)

lemma has_shape_pad_ltrb:
  assumes "rectangular img"
  shows "has_shape (pad_ltrb img l t r b fill)
           (int (nat t) + image_height img + int (nat b))
           (int (nat l) + image_width img + int (nat r))"
proof -
  have w0: "0 \<le> image_width img"
    by (simp add: image_width_def split: list.split)
  have rows: "\<forall>row \<in> set (pixels img). int (length row) = image_width img"
    using assms by (simp add: rectangular_def list_all_iff)
  show ?thesis
    using rows w0
    by (auto simp: has_shape_def pad_ltrb_def Let_def image_height_def list_all_iff)
qed

lemma has_shape_sizes:
  assumes "has_shape img h w"
  shows "image_height img = h" and "rectangular img" and "0 < h \<Longrightarrow> image_width img = w"
  using assms
  by (auto simp: has_shape_def image_height_def image_width_def rectangular_def list_all_iff
      split: list.splits)

lemma has_shape_crop:
  assumes rect: "rectangular img" and h: "0 \<le> height" and w: "0 \<le> width"
  shows "has_shape (crop img top0 left0 height width) height width"
proof -
  define pl where "pl = max (- left0) 0"
  define pt where "pt = max (- top0) 0"
  define pr where "pr = max (left0 + width - image_width img) 0"
  define pb where "pb = max (top0 + height - image_height img) 0"
  define padded where "padded = pad_ltrb img pl pt pr pb 0"
  have sh: "has_shape padded (int (nat pt) + image_height img + int (nat pb))
              (int (nat pl) + image_width img + int (nat pr))"
    unfolding padded_def by (rule has_shape_pad_ltrb[OF rect])
  have w0: "0 \<le> image_width img"
    by (simp add: image_width_def split: list.split)
  have h0: "0 \<le> image_height img"
    by (simp add: image_height_def)
  have len: "int (length (pixels padded)) = int (nat pt) + image_height img + int (nat pb)"
    using sh by (simp add: has_shape_def)
  have rows: "\<forall>row \<in> set (pixels padded). int (length row) = int (nat pl) + image_width img + int (nat pr)"
    using sh by (simp add: has_shape_def list_all_iff)
  have eq: "crop img top0 left0 height width =
      img\<lparr>pixels := map (\<lambda>row. take (nat width) (drop (nat (left0 + pl)) row))
             (take (nat height) (drop (nat (top0 + pt)) (pixels padded)))\<rparr>"
    by (simp add: crop_def Let_def pl_def pt_def pr_def pb_def padded_def)
  have nrows: "int (length (take (nat height) (drop (nat (top0 + pt)) (pixels padded)))) = height"
    using len h h0 by (simp add: pt_def pb_def)
  have "\<forall>row \<in> set (take (nat height) (drop (nat (top0 + pt)) (pixels padded))).
           int (length (take (nat width) (drop (nat (left0 + pl)) row))) = width"
  proof
    fix row assume "row \<in> set (take (nat height) (drop (nat (top0 + pt)) (pixels padded)))"
    then have "row \<in> set (pixels padded)"
      by (meson in_set_dropD in_set_takeD)
    then have "int (length row) = int (nat pl) + image_width img + int (nat pr)"
      using rows by blast
    then show "int (length (take (nat width) (drop (nat (left0 + pl)) row))) = width"
      using w w0 by (simp add: pl_def pr_def)
  qed
  then show ?thesis
    unfolding eq using nrows by (simp add: has_shape_def list_all_iff)
qed

lemma crop_full:
  assumes "rectangular img"
  shows "crop img 0 0 (image_height img) (image_width img) = img"
proof -
  have rows: "\<forall>row \<in> set (pixels img). int (length row) = image_width img"
    using assms by (simp add: rectangular_def list_all_iff)
  then have "map (\<lambda>row. take (nat (image_width img)) row) (pixels img) = pixels img"
    by (intro map_idI) auto
  then show ?thesis
    by (simp add: crop_def pad_ltrb_def Let_def image_height_def comp_def)
qed

lemma has_shape_self: "rectangular img \<Longrightarrow> has_shape img (image_height img) (image_width img)"
  by (simp add: has_shape_def rectangular_def image_height_def)

lemma py_round_zero: "py_round 0 = 0"
  by (simp add: py_round_def)

lemma image_width_nonneg: "0 \<le> image_width img"
  by (simp add: image_width_def split: list.split)

lemma image_height_nonneg: "0 \<le> image_height img"
  by (simp add: image_height_def)

text \<open>\<^verbatim>\<open>center_crop\<close> when the requested size fits: no padding, one crop.\<close>

lemma center_crop_within:
  assumes "crop_height \<le> image_height img" and "crop_width \<le> image_width img"
  shows "center_crop img (Seq [crop_height, crop_width]) =
           Inr (crop img (py_round (of_int (image_height img - crop_height) / 2))
                  (py_round (of_int (image_width img - crop_width) / 2)) crop_height crop_width)"
  using assms by (simp add: center_crop_def normalize_size_def Let_def)

lemma ceil_half: "(0::int) \<le> e \<Longrightarrow> (e + 1) div 2 = e - e div 2"
  by presburger

lemma normalize_size_pair: "normalize_size (Seq [a, b]) = [a, b]"
  by (simp add: normalize_size_def)

lemma center_crop_exceeds:
  assumes "image_height img < crop_height \<or> image_width img < crop_width"
  shows "center_crop img (Seq [crop_height, crop_width]) =
     (case pad img
        [if crop_width > image_width img then (crop_width - image_width img) div 2 else 0,
         if crop_height > image_height img then (crop_height - image_height img) div 2 else 0,
         if crop_width > image_width img then (crop_width - image_width img + 1) div 2 else 0,
         if crop_height > image_height img then (crop_height - image_height img + 1) div 2 else 0]
        0 of
        Inl e \<Rightarrow> Inl e
      | Inr img1 \<Rightarrow>
          if crop_width = image_width img1 \<and> crop_height = image_height img1 then Inr img1
          else Inr (crop img1 (py_round (of_int (image_height img1 - crop_height) / 2))
                     (py_round (of_int (image_width img1 - crop_width) / 2))
                     crop_height crop_width))"
proof -
  have ex: "(crop_width > image_width img \<or> crop_height > image_height img) = True"
    using assms by auto
  show ?thesis
    by (simp only: center_crop_def normalize_size_pair list.case Let_def ex if_True)
qed

lemma normalize_size_idem:
  "normalize_size (Seq (normalize_size size0)) = normalize_size size0"
  by (cases size0) (auto simp: normalize_size_def)

lemma five_crop_normalized: "five_crop img (Seq (normalize_size size0)) = five_crop img size0"
  by (simp add: five_crop_def normalize_size_idem)

lemma five_crop_length: "five_crop img size0 = Inr crops \<Longrightarrow> length crops = 5"
  by (auto simp: five_crop_def Let_def split: if_splits sum.splits)

lemma five_crop_bad_size:
  "length (normalize_size size0) \<noteq> 2 \<Longrightarrow>
     five_crop img size0 = Inl (ValueError ''Please provide only two dimensions (h, w) for size.'')"
  by (simp add: five_crop_def)

lemma ten_crop_eq:
  "ten_crop img size0 vertical_flip =
     (case five_crop img size0 of
        Inl e \<Rightarrow> Inl e
      | Inr first_five \<Rightarrow>
          (case five_crop (if vertical_flip then vflip img else hflip img) size0 of
             Inl e \<Rightarrow> Inl e
           | Inr second_five \<Rightarrow> Inr (first_five @ second_five)))"
proof (cases "length (normalize_size size0) = 2")
  case True
  then show ?thesis
    by (auto simp: ten_crop_def Let_def five_crop_normalized split: sum.splits)
next
  case False
  then show ?thesis
    by (simp add: ten_crop_def Let_def five_crop_bad_size)
qed

lemma image_size_hflip:
  "image_height (hflip img) = image_height img" "image_width (hflip img) = image_width img"
  by (auto simp: hflip_def image_height_def image_width_def split: list.splits)

lemma image_size_vflip:
  "image_height (vflip img) = image_height img"
  "rectangular img \<Longrightarrow> image_width (vflip img) = image_width img"
   apply (simp add: vflip_def image_height_def)
  apply (cases "pixels img" rule: rev_cases)
   apply (auto simp: vflip_def image_width_def rectangular_def split: list.splits)
  done

lemma five_crop_fits:
  assumes "h \<le> image_height img" and "w \<le> image_width img"
  shows "\<exists>tl tr bl br center. five_crop img (Seq [h, w]) = Inr [tl, tr, bl, br, center]"
proof -
  have nex: "\<not> (image_width img < w \<or> image_height img < h)" using assms by auto
  show ?thesis
    using assms nex by (simp add: five_crop_def normalize_size_def Let_def center_crop_within)
qed


section \<open>Properties of the interpolation table, the affine matrix and rotate\<close>

lemma unpack2_pair: "unpack2 [x, y] = Inr (x, y)"
  by (simp add: unpack2_def)

lemma from_int_table:
  "interpolation_modes_from_int 0 = Inr NEAREST"
  "interpolation_modes_from_int 1 = Inr LANCZOS"
  "interpolation_modes_from_int 2 = Inr BILINEAR"
  "interpolation_modes_from_int 3 = Inr BICUBIC"
  "interpolation_modes_from_int 4 = Inr BOX"
  "interpolation_modes_from_int 5 = Inr HAMMING"
  by (simp_all add: interpolation_modes_from_int_def inverse_modes_mapping_def)

lemma from_int_legacy:
  assumes "0 \<le> i" and "i \<le> 5"
  shows "interpolation_modes_from_int i
           = Inr ([NEAREST, LANCZOS, BILINEAR, BICUBIC, BOX, HAMMING] ! nat i)"
proof -
  from assms have "i = 0 \<or> i = 1 \<or> i = 2 \<or> i = 3 \<or> i = 4 \<or> i = 5" by arith
  then show ?thesis by (auto simp: from_int_table)
qed

lemma from_int_other:
  assumes "i < 0 \<or> 5 < i"
  shows "interpolation_modes_from_int i = Inl (KeyError i)"
  using assms by (auto simp: interpolation_modes_from_int_def inverse_modes_mapping_def)

text \<open>
  The five list operations of the matrix builder, carried out on an arbitrary
  \<open>[d, - b, 0, - c, a, 0]\<close>.
\<close>

lemma affine_matrix_steps:
  fixes a b c d scale cx cy tx ty :: real
  shows "(let matrix1 = map (\<lambda>x. x / scale) [d, - b, 0, - c, a, 0];
              matrix2 = matrix1[2 := matrix1 ! 2
                          + (matrix1 ! 0 * (- cx - tx) + matrix1 ! 1 * (- cy - ty))];
              matrix3 = matrix2[5 := matrix2 ! 5
                          + (matrix2 ! 3 * (- cx - tx) + matrix2 ! 4 * (- cy - ty))];
              matrix4 = matrix3[2 := matrix3 ! 2 + cx];
              matrix5 = matrix4[5 := matrix4 ! 5 + cy]
          in matrix5)
         = [d / scale, (- b) / scale,
            d / scale * (- cx - tx) + (- b) / scale * (- cy - ty) + cx,
            (- c) / scale, a / scale,
            (- c) / scale * (- cx - tx) + a / scale * (- cy - ty) + cy]"
  by (simp add: Let_def)

lemma get_inverse_affine_matrix_pairs:
  "get_inverse_affine_matrix math [cx, cy] angle [tx, ty] scale [sx, sy] =
     (let rot = m_radians math angle; rx = m_radians math sx; ry = m_radians math sy;
          a = m_cos math (rot - ry) / m_cos math ry;
          b = - m_cos math (rot - ry) * m_tan math rx / m_cos math ry - m_sin math rot;
          c = m_sin math (rot - ry) / m_cos math ry;
          d = - m_sin math (rot - ry) * m_tan math rx / m_cos math ry + m_cos math rot
      in if scale = 0 then Inl ZeroDivisionError
         else Inr [d / scale, (- b) / scale,
                   d / scale * (- cx - tx) + (- b) / scale * (- cy - ty) + cx,
                   (- c) / scale, a / scale,
                   (- c) / scale * (- cx - tx) + a / scale * (- cy - ty) + cy])"
proof -
  define rot where "rot = m_radians math angle"
  define rx where "rx = m_radians math sx"
  define ry where "ry = m_radians math sy"
  define a where "a = m_cos math (rot - ry) / m_cos math ry"
  define b where "b = - m_cos math (rot - ry) * m_tan math rx / m_cos math ry - m_sin math rot"
  define c where "c = m_sin math (rot - ry) / m_cos math ry"
  define d where "d = - m_sin math (rot - ry) * m_tan math rx / m_cos math ry + m_cos math rot"
  have "get_inverse_affine_matrix math [cx, cy] angle [tx, ty] scale [sx, sy] =
      (if scale = 0 then Inl ZeroDivisionError
       else Inr (let matrix1 = map (\<lambda>x. x / scale) [d, - b, 0, - c, a, 0];
              matrix2 = matrix1[2 := matrix1 ! 2
                          + (matrix1 ! 0 * (- cx - tx) + matrix1 ! 1 * (- cy - ty))];
              matrix3 = matrix2[5 := matrix2 ! 5
                          + (matrix2 ! 3 * (- cx - tx) + matrix2 ! 4 * (- cy - ty))];
              matrix4 = matrix3[2 := matrix3 ! 2 + cx];
              matrix5 = matrix4[5 := matrix4 ! 5 + cy]
          in matrix5))"
    by (simp only: get_inverse_affine_matrix_def Let_def list.map unpack2_pair sum.case
        prod.case rot_def rx_def ry_def a_def b_def c_def d_def)
  then have "get_inverse_affine_matrix math [cx, cy] angle [tx, ty] scale [sx, sy] =
      (if scale = 0 then Inl ZeroDivisionError
       else Inr [d / scale, (- b) / scale,
                   d / scale * (- cx - tx) + (- b) / scale * (- cy - ty) + cx,
                   (- c) / scale, a / scale,
                   (- c) / scale * (- cx - tx) + a / scale * (- cy - ty) + cy])"
    unfolding affine_matrix_steps .
  then show ?thesis
    unfolding Let_def rot_def rx_def ry_def a_def b_def c_def d_def .
qed

text \<open>
  \<^verbatim>\<open>rotate\<close> calls the builder with scale 1, so the builder returns a matrix whenever
  the center has two coordinates.
\<close>

lemma rotate_center_matrix:
  assumes "length center_f = 2"
  shows "\<exists>matrix. get_inverse_affine_matrix math center_f (- angle) [0, 0] 1 [0, 0] = Inr matrix"
proof -
  obtain x y where c: "center_f = [x, y]"
    using assms by (cases center_f; cases "tl center_f") auto
  show ?thesis
    by (simp add: c get_inverse_affine_matrix_pairs Let_def)
qed

lemma rotate_tensor_never_returns:
  assumes "variant img = TensorImage"
  shows "snd (rotate_img math F_pil_rotate img angle interpolation expand center fill resample)
           \<noteq> Inr out"
  using assms
  by (auto simp: rotate_img_def Let_def split: option.splits sum.splits interp_arg.splits prod.splits)

lemma rotate_tensor_mode:
  assumes "variant img = TensorImage"
    and "get_inverse_affine_matrix math
           (case center of None \<Rightarrow> [0, 0]
            | Some cs \<Rightarrow> map (\<lambda>(c, s). 1 * (c - of_int s * 0.5)) (zip cs (get_image_size img)))
           (- angle) [0, 0] 1 [0, 0] = Inr matrix"
  shows "snd (rotate_img math F_pil_rotate img angle (Mode m) expand center fill None)
           = Inl (NotImplementedError ''Tensor rotate is not implemented yet!'')"
  using assms by (simp add: rotate_img_def Let_def)

lemma rotate_tensor_int:
  assumes "variant img = TensorImage"
    and "interpolation_modes_from_int i = Inr m"
    and "get_inverse_affine_matrix math
           (case center of None \<Rightarrow> [0, 0]
            | Some cs \<Rightarrow> map (\<lambda>(c, s). 1 * (c - of_int s * 0.5)) (zip cs (get_image_size img)))
           (- angle) [0, 0] 1 [0, 0] = Inr matrix"
  shows "snd (rotate_img math F_pil_rotate img angle (IntCode i) expand center fill None)
           = Inl (NotImplementedError ''Tensor rotate is not implemented yet!'')"
  using assms by (simp add: rotate_img_def Let_def)

lemma rotate_tensor_resample:
  assumes "variant img = TensorImage"
    and "interpolation_modes_from_int r = Inr m"
    and "get_inverse_affine_matrix math
           (case center of None \<Rightarrow> [0, 0]
            | Some cs \<Rightarrow> map (\<lambda>(c, s). 1 * (c - of_int s * 0.5)) (zip cs (get_image_size img)))
           (- angle) [0, 0] 1 [0, 0] = Inr matrix"
  shows "snd (rotate_img math F_pil_rotate img angle interpolation expand center fill (Some r))
           = Inl (NotImplementedError ''Tensor rotate is not implemented yet!'')"
  using assms by (simp add: rotate_img_def Let_def)

lemma center_f_length:
  assumes "case center of None \<Rightarrow> True | Some cs \<Rightarrow> length cs = 2"
  shows "length (case center of None \<Rightarrow> [0, 0]
            | Some cs \<Rightarrow> map (\<lambda>(c, s). 1 * (c - of_int s * 0.5)) (zip cs (get_image_size img))) = 2"
  using assms by (auto simp: get_image_size_def split: option.splits)

section \<open>Properties of the checks of gaussian_blur\<close>

text \<open>The test of the source, \<^verbatim>\<open>ksize % 2 == 0 or ksize < 0\<close>, rejects exactly the sizes that are not positive and odd.\<close>

lemma kernel_test_iff: "(ksize mod 2 = 0 \<or> ksize < 0) = (\<not> (0 < ksize \<and> odd ksize))" for ksize :: int
  by presburger

lemma odd_positive_passes:
  "list_all (\<lambda>k. 0 < k \<and> odd k) ks \<Longrightarrow> \<not> list_ex (\<lambda>ksize. ksize mod 2 = 0 \<or> ksize < (0::int)) ks"
  unfolding kernel_test_iff by (simp add: list_all_iff list_ex_iff)

lemma default_sigma_positive:
  "list_all (\<lambda>k. 0 < k \<and> odd k) ks \<Longrightarrow>
     \<not> list_ex (\<lambda>s. s \<le> (0::real)) (map (\<lambda>ksize. of_int ksize * 0.15 + 0.35) ks)"
proof -
  assume a: "list_all (\<lambda>k. 0 < k \<and> odd k) ks"
  { fix k :: int assume "0 < k"
    then have "0 < (of_int k :: real) * 0.15" by simp
    then have "\<not> (of_int k :: real) * 0.15 + 0.35 \<le> 0" by simp }
  then show ?thesis using a by (auto simp: list_all_iff list_ex_iff)
qed

section \<open>Properties of the heap\<close>

lemma take_update_beyond: "n \<le> t \<Longrightarrow> take n (xs[t := x]) = take n xs"
  by (simp add: take_update_cancel)

section \<open>Claims about center_crop, five_crop and ten_crop\<close>

text \<open>
  Claim C1. Let the image be rectangular and the requested size \<open>(crop_height,
  crop_width)\<close> non-negative, with the requested height or width larger than the
  source. Then \<^verbatim>\<open>center_crop\<close> pads with fill 0: on each axis the excess \<open>e\<close> (0 on an
  axis that does not exceed) is split into \<open>e div 2\<close> on the low side and
  \<open>e - e div 2\<close> on the high side, so that the padded image is
  \<open>max source requested\<close> on each axis. The result is the crop of the padded image at
  the offsets \<^verbatim>\<open>round((source - target) / 2.0)\<close> measured on the padded image, and it
  has exactly the size \<open>(crop_height, crop_width)\<close>.
\<close>

theorem center_crop_pads_then_crops:
  fixes img :: "'a::zero Image"
  assumes rect: "rectangular img"
    and ch: "0 \<le> crop_height" and cw: "0 \<le> crop_width"
    and exceeds: "image_height img < crop_height \<or> image_width img < crop_width"
  shows "let eh = (if image_height img < crop_height then crop_height - image_height img else 0);
             ew = (if image_width img < crop_width then crop_width - image_width img else 0)
         in \<exists>padded out.
              pad img [ew div 2, eh div 2, ew - ew div 2, eh - eh div 2] 0 = Inr padded \<and>
              has_shape padded (max (image_height img) crop_height) (max (image_width img) crop_width) \<and>
              center_crop img (Seq [crop_height, crop_width]) = Inr out \<and>
              out = crop padded (py_round (of_int (image_height padded - crop_height) / 2))
                      (py_round (of_int (image_width padded - crop_width) / 2))
                      crop_height crop_width \<and>
              has_shape out crop_height crop_width"
proof -
  define eh where "eh = (if image_height img < crop_height then crop_height - image_height img else 0)"
  define ew where "ew = (if image_width img < crop_width then crop_width - image_width img else 0)"
  define padded where "padded = pad_ltrb img (ew div 2) (eh div 2) (ew - ew div 2) (eh - eh div 2) 0"
  have eh0: "0 \<le> eh" and ew0: "0 \<le> ew" by (auto simp: eh_def ew_def)
  have pad_eq: "pad img [ew div 2, eh div 2, ew - ew div 2, eh - eh div 2] 0 = Inr padded"
    by (simp add: pad_def padded_def)
  have code_padding:
    "[if crop_width > image_width img then (crop_width - image_width img) div 2 else 0,
      if crop_height > image_height img then (crop_height - image_height img) div 2 else 0,
      if crop_width > image_width img then (crop_width - image_width img + 1) div 2 else 0,
      if crop_height > image_height img then (crop_height - image_height img + 1) div 2 else 0]
     = [ew div 2, eh div 2, ew - ew div 2, eh - eh div 2]"
    using ceil_half[of "crop_width - image_width img"] ceil_half[of "crop_height - image_height img"]
    by (auto simp: eh_def ew_def)
  have sh0: "has_shape padded
      (int (nat (eh div 2)) + image_height img + int (nat (eh - eh div 2)))
      (int (nat (ew div 2)) + image_width img + int (nat (ew - ew div 2)))"
    unfolding padded_def by (rule has_shape_pad_ltrb[OF rect])
  have hsum: "int (nat (eh div 2)) + image_height img + int (nat (eh - eh div 2))
        = max (image_height img) crop_height"
    using eh0 by (auto simp: eh_def)
  have wsum: "int (nat (ew div 2)) + image_width img + int (nat (ew - ew div 2))
        = max (image_width img) crop_width"
    using ew0 by (auto simp: ew_def)
  have sh: "has_shape padded (max (image_height img) crop_height) (max (image_width img) crop_width)"
    using sh0 by (simp only: hsum wsum)
  have rect_p: "rectangular padded"
    using sh by (rule has_shape_sizes(2))
  define out where "out = crop padded (py_round (of_int (image_height padded - crop_height) / 2))
                      (py_round (of_int (image_width padded - crop_width) / 2))
                      crop_height crop_width"
  have out_shape: "has_shape out crop_height crop_width"
    unfolding out_def by (rule has_shape_crop[OF rect_p ch cw])
  have step: "center_crop img (Seq [crop_height, crop_width]) =
      (if crop_width = image_width padded \<and> crop_height = image_height padded
       then Inr padded else Inr out)"
    by (simp only: center_crop_exceeds[OF exceeds] code_padding pad_eq sum.case out_def)
  have cc: "center_crop img (Seq [crop_height, crop_width]) = Inr out"
  proof (cases "crop_width = image_width padded \<and> crop_height = image_height padded")
    case True
    then have "out = padded"
      by (simp add: out_def py_round_zero crop_full[OF rect_p])
    then show ?thesis
      unfolding step using True by simp
  next
    case False
    then show ?thesis
      unfolding step by auto
  qed
  show ?thesis
    unfolding Let_def eh_def[symmetric] ew_def[symmetric]
    using pad_eq sh cc out_shape out_def by blast
qed

theorem center_crop_pads_then_crops_witness:
  "rectangular \<lparr>variant = TensorImage, pixels = [[1], [2], [3::int]]\<rparr> \<and>
   image_height \<lparr>variant = TensorImage, pixels = [[1], [2], [3::int]]\<rparr> = 3 \<and>
   image_width \<lparr>variant = TensorImage, pixels = [[1], [2], [3::int]]\<rparr> = 1 \<and>
   (\<exists>padded out.
      pad \<lparr>variant = TensorImage, pixels = [[1], [2], [3::int]]\<rparr> [0, 0, 1, 0] 0 = Inr padded \<and>
      has_shape padded 3 2 \<and>
      center_crop \<lparr>variant = TensorImage, pixels = [[1], [2], [3::int]]\<rparr> (Seq [2, 2]) = Inr out \<and>
      out = crop padded (py_round (of_int (image_height padded - 2) / 2))
              (py_round (of_int (image_width padded - 2) / 2)) 2 2 \<and>
      has_shape out 2 2) \<and>
   center_crop \<lparr>variant = TensorImage, pixels = [[1], [2], [3::int]]\<rparr> (Seq [2, 2])
     = Inr \<lparr>variant = TensorImage, pixels = [[1, 0], [2, 0]]\<rparr>"
proof -
  let ?I = "\<lparr>variant = TensorImage, pixels = [[1], [2], [3::int]]\<rparr>"
  have r: "rectangular ?I" by (simp add: rectangular_def image_width_def)
  have h: "image_height ?I = 3" by (simp add: image_height_def)
  have w: "image_width ?I = 1" by (simp add: image_width_def)
  have ex: "image_height ?I < 2 \<or> image_width ?I < 2" by (simp add: w)
  have main: "\<exists>padded out.
      pad ?I [0, 0, 1, 0] 0 = Inr padded \<and>
      has_shape padded 3 2 \<and>
      center_crop ?I (Seq [2, 2]) = Inr out \<and>
      out = crop padded (py_round (of_int (image_height padded - 2) / 2))
              (py_round (of_int (image_width padded - 2) / 2)) 2 2 \<and>
      has_shape out 2 2"
    using center_crop_pads_then_crops[OF r _ _ ex] by (simp add: h w Let_def)
  have val: "center_crop ?I (Seq [2, 2]) = Inr \<lparr>variant = TensorImage, pixels = [[1, 0], [2, 0]]\<rparr>"
    using py_round_half[of 1]
    by (simp add: center_crop_def normalize_size_def pad_def pad_ltrb_def crop_def
        image_height_def image_width_def Let_def py_round_zero)
  show ?thesis using r h w main val by blast
qed

text \<open>
  Claim C4. For every image and every two-element size \<open>(h, w)\<close>, \<^verbatim>\<open>five_crop\<close> raises
  the size-mismatch \<^verbatim>\<open>ValueError\<close> exactly when \<open>h\<close> exceeds the image height or \<open>w\<close>
  the image width. Otherwise it returns exactly five images, and for a rectangular
  image and a non-negative size each of the five has the shape \<open>(h, w)\<close>.
\<close>

theorem five_crop_size_check:
  fixes img :: "'a::zero Image"
  shows "((five_crop img (Seq [h, w]) =
             Inl (ValueError ''Requested crop size {} is bigger than input size {}''))
           = (image_height img < h \<or> image_width img < w)) \<and>
         (h \<le> image_height img \<and> w \<le> image_width img \<longrightarrow>
           (\<exists>tl tr bl br center.
              five_crop img (Seq [h, w]) = Inr [tl, tr, bl, br, center] \<and>
              (rectangular img \<and> 0 \<le> h \<and> 0 \<le> w \<longrightarrow>
                 has_shape tl h w \<and> has_shape tr h w \<and> has_shape bl h w \<and>
                 has_shape br h w \<and> has_shape center h w)))"
proof (intro conjI impI)
  show "(five_crop img (Seq [h, w]) =
            Inl (ValueError ''Requested crop size {} is bigger than input size {}''))
          = (image_height img < h \<or> image_width img < w)"
  proof (cases "image_height img < h \<or> image_width img < w")
    case True
    then show ?thesis by (auto simp: five_crop_def normalize_size_def Let_def)
  next
    case False
    then have "h \<le> image_height img" "w \<le> image_width img" by auto
    then show ?thesis using False
      by (simp add: five_crop_def normalize_size_def Let_def center_crop_within)
  qed
next
  assume fit: "h \<le> image_height img \<and> w \<le> image_width img"
  then have nex: "\<not> (image_width img < w \<or> image_height img < h)" by auto
  have "five_crop img (Seq [h, w]) =
      Inr [crop img 0 0 h w, crop img 0 (image_width img - w) h w,
           crop img (image_height img - h) 0 h w,
           crop img (image_height img - h) (image_width img - w) h w,
           crop img (py_round (of_int (image_height img - h) / 2))
                (py_round (of_int (image_width img - w) / 2)) h w]"
    using fit nex by (simp add: five_crop_def normalize_size_def Let_def center_crop_within)
  then show "\<exists>tl tr bl br center.
            five_crop img (Seq [h, w]) = Inr [tl, tr, bl, br, center] \<and>
            (rectangular img \<and> 0 \<le> h \<and> 0 \<le> w \<longrightarrow>
               has_shape tl h w \<and> has_shape tr h w \<and> has_shape bl h w \<and>
               has_shape br h w \<and> has_shape center h w)"
    by (simp add: has_shape_crop)
qed

theorem five_crop_size_check_witness:
  "rectangular \<lparr>variant = PILImage, pixels = [[1, 2, 3], [4, 5, 6], [7, 8, 9::int]]\<rparr> \<and>
   image_height \<lparr>variant = PILImage, pixels = [[1, 2, 3], [4, 5, 6], [7, 8, 9::int]]\<rparr> = 3 \<and>
   image_width \<lparr>variant = PILImage, pixels = [[1, 2, 3], [4, 5, 6], [7, 8, 9::int]]\<rparr> = 3 \<and>
   (\<exists>tl tr bl br center.
      five_crop \<lparr>variant = PILImage, pixels = [[1, 2, 3], [4, 5, 6], [7, 8, 9::int]]\<rparr> (Seq [2, 2])
        = Inr [tl, tr, bl, br, center] \<and>
      has_shape tl 2 2 \<and> has_shape tr 2 2 \<and> has_shape bl 2 2 \<and>
      has_shape br 2 2 \<and> has_shape center 2 2) \<and>
   five_crop \<lparr>variant = PILImage, pixels = [[1, 2, 3], [4, 5, 6], [7, 8, 9::int]]\<rparr> (Seq [4, 2])
     = Inl (ValueError ''Requested crop size {} is bigger than input size {}'')"
proof -
  let ?I = "\<lparr>variant = PILImage, pixels = [[1, 2, 3], [4, 5, 6], [7, 8, 9::int]]\<rparr>"
  have r: "rectangular ?I" by (simp add: rectangular_def image_width_def)
  have h: "image_height ?I = 3" by (simp add: image_height_def)
  have w: "image_width ?I = 3" by (simp add: image_width_def)
  have fits: "\<exists>tl tr bl br center.
      five_crop ?I (Seq [2, 2]) = Inr [tl, tr, bl, br, center] \<and>
      has_shape tl 2 2 \<and> has_shape tr 2 2 \<and> has_shape bl 2 2 \<and>
      has_shape br 2 2 \<and> has_shape center 2 2"
    using five_crop_size_check[of ?I 2 2] r by (simp add: h w)
  have big: "five_crop ?I (Seq [4, 2])
     = Inl (ValueError ''Requested crop size {} is bigger than input size {}'')"
    using five_crop_size_check[of ?I 4 2] by (simp add: h w)
  show ?thesis using r h w fits big by blast
qed

text \<open>
  Claim C5. \<^verbatim>\<open>ten_crop\<close> is \<^verbatim>\<open>five_crop\<close> of the image followed by \<^verbatim>\<open>five_crop\<close> of the
  flipped image (\<^verbatim>\<open>vflip\<close> when \<open>vertical_flip\<close> is set, \<^verbatim>\<open>hflip\<close> otherwise), an error
  of either being the error of \<^verbatim>\<open>ten_crop\<close>; whenever it returns, it returns exactly ten
  images. For a rectangular image and a size that fits it does return, in the order
  \<open>[tl, tr, bl, br, center, tl', tr', bl', br', center']\<close>.
\<close>

theorem ten_crop_is_two_five_crops:
  fixes img :: "'a::zero Image"
  shows "ten_crop img size0 vertical_flip =
           (case five_crop img size0 of
              Inl e \<Rightarrow> Inl e
            | Inr first_five \<Rightarrow>
                (case five_crop (if vertical_flip then vflip img else hflip img) size0 of
                   Inl e \<Rightarrow> Inl e
                 | Inr second_five \<Rightarrow> Inr (first_five @ second_five))) \<and>
         (\<forall>crops. ten_crop img size0 vertical_flip = Inr crops \<longrightarrow> length crops = 10) \<and>
         (rectangular img \<and> h \<le> image_height img \<and> w \<le> image_width img \<longrightarrow>
            (\<exists>tl tr bl br center tl' tr' bl' br' center'.
               five_crop img (Seq [h, w]) = Inr [tl, tr, bl, br, center] \<and>
               five_crop (if vertical_flip then vflip img else hflip img) (Seq [h, w])
                 = Inr [tl', tr', bl', br', center'] \<and>
               ten_crop img (Seq [h, w]) vertical_flip
                 = Inr [tl, tr, bl, br, center, tl', tr', bl', br', center']))"
proof (intro conjI allI impI)
  show "ten_crop img size0 vertical_flip =
           (case five_crop img size0 of
              Inl e \<Rightarrow> Inl e
            | Inr first_five \<Rightarrow>
                (case five_crop (if vertical_flip then vflip img else hflip img) size0 of
                   Inl e \<Rightarrow> Inl e
                 | Inr second_five \<Rightarrow> Inr (first_five @ second_five)))"
    by (rule ten_crop_eq)
next
  fix crops
  assume "ten_crop img size0 vertical_flip = Inr crops"
  then show "length crops = 10"
    unfolding ten_crop_eq
    by (auto split: sum.splits dest!: five_crop_length)
next
  let ?f = "if vertical_flip then vflip img else hflip img"
  assume a: "rectangular img \<and> h \<le> image_height img \<and> w \<le> image_width img"
  have hf: "image_height ?f = image_height img" and wf: "image_width ?f = image_width img"
    using a by (simp_all add: image_size_hflip image_size_vflip)
  obtain tl tr bl br center where
    one: "five_crop img (Seq [h, w]) = Inr [tl, tr, bl, br, center]"
    using five_crop_fits[of h img w] a by blast
  obtain tl' tr' bl' br' center' where
    two: "five_crop ?f (Seq [h, w]) = Inr [tl', tr', bl', br', center']"
    using five_crop_fits[of h ?f w] a hf wf by metis
  have "ten_crop img (Seq [h, w]) vertical_flip
          = Inr [tl, tr, bl, br, center, tl', tr', bl', br', center']"
    unfolding ten_crop_eq one two by simp
  then show "\<exists>tl tr bl br center tl' tr' bl' br' center'.
       five_crop img (Seq [h, w]) = Inr [tl, tr, bl, br, center] \<and>
       five_crop ?f (Seq [h, w]) = Inr [tl', tr', bl', br', center'] \<and>
       ten_crop img (Seq [h, w]) vertical_flip
         = Inr [tl, tr, bl, br, center, tl', tr', bl', br', center']"
    using one two by blast
qed

theorem ten_crop_is_two_five_crops_witness:
  "rectangular \<lparr>variant = TensorImage, pixels = [[1, 2], [3, 4::int]]\<rparr> \<and>
   image_height \<lparr>variant = TensorImage, pixels = [[1, 2], [3, 4::int]]\<rparr> = 2 \<and>
   image_width \<lparr>variant = TensorImage, pixels = [[1, 2], [3, 4::int]]\<rparr> = 2 \<and>
   (\<exists>tl tr bl br center tl' tr' bl' br' center'.
      five_crop \<lparr>variant = TensorImage, pixels = [[1, 2], [3, 4::int]]\<rparr> (Seq [1, 1])
        = Inr [tl, tr, bl, br, center] \<and>
      five_crop (hflip \<lparr>variant = TensorImage, pixels = [[1, 2], [3, 4::int]]\<rparr>) (Seq [1, 1])
        = Inr [tl', tr', bl', br', center'] \<and>
      ten_crop \<lparr>variant = TensorImage, pixels = [[1, 2], [3, 4::int]]\<rparr> (Seq [1, 1]) False
        = Inr [tl, tr, bl, br, center, tl', tr', bl', br', center']) \<and>
   length (projr (ten_crop \<lparr>variant = TensorImage, pixels = [[1, 2], [3, 4::int]]\<rparr> (Seq [1, 1]) False)) = 10"
proof -
  let ?I = "\<lparr>variant = TensorImage, pixels = [[1, 2], [3, 4::int]]\<rparr>"
  have r: "rectangular ?I" by (simp add: rectangular_def image_width_def)
  have h: "image_height ?I = 2" by (simp add: image_height_def)
  have w: "image_width ?I = 2" by (simp add: image_width_def)
  have ex: "\<exists>tl tr bl br center tl' tr' bl' br' center'.
      five_crop ?I (Seq [1, 1]) = Inr [tl, tr, bl, br, center] \<and>
      five_crop (hflip ?I) (Seq [1, 1]) = Inr [tl', tr', bl', br', center'] \<and>
      ten_crop ?I (Seq [1, 1]) False
        = Inr [tl, tr, bl, br, center, tl', tr', bl', br', center']"
    using ten_crop_is_two_five_crops[of ?I "Seq [1, 1]" False 1 1, THEN conjunct2, THEN conjunct2] r
    by (simp add: h w)
  then have len: "length (projr (ten_crop ?I (Seq [1, 1]) False)) = 10"
    by auto
  show ?thesis using r h w ex len by blast
qed

text \<open>
  Claim C10. When the requested size is exactly the size of a rectangular image, the
  size check (a strict comparison) passes and every one of the five crops is the whole
  image.
\<close>

theorem five_crop_full_size:
  fixes img :: "'a::zero Image"
  assumes "rectangular img"
  shows "five_crop img (Seq [image_height img, image_width img]) = Inr [img, img, img, img, img]"
proof -
  have c: "center_crop img (Seq [image_height img, image_width img]) = Inr img"
    by (simp add: center_crop_within py_round_zero crop_full[OF assms])
  show ?thesis
    by (simp add: five_crop_def normalize_size_def Let_def c crop_full[OF assms])
qed

theorem five_crop_full_size_witness:
  "rectangular \<lparr>variant = PILImage, pixels = [[1, 2, 3], [4, 5, 6::int]]\<rparr> \<and>
   image_height \<lparr>variant = PILImage, pixels = [[1, 2, 3], [4, 5, 6::int]]\<rparr> = 2 \<and>
   image_width \<lparr>variant = PILImage, pixels = [[1, 2, 3], [4, 5, 6::int]]\<rparr> = 3 \<and>
   five_crop \<lparr>variant = PILImage, pixels = [[1, 2, 3], [4, 5, 6::int]]\<rparr> (Seq [2, 3])
     = Inr (replicate 5 \<lparr>variant = PILImage, pixels = [[1, 2, 3], [4, 5, 6::int]]\<rparr>)"
proof -
  let ?I = "\<lparr>variant = PILImage, pixels = [[1, 2, 3], [4, 5, 6::int]]\<rparr>"
  have r: "rectangular ?I" by (simp add: rectangular_def image_width_def)
  have h: "image_height ?I = 2" by (simp add: image_height_def)
  have w: "image_width ?I = 3" by (simp add: image_width_def)
  have "five_crop ?I (Seq [2, 3]) = Inr [?I, ?I, ?I, ?I, ?I]"
    using five_crop_full_size[OF r] by (simp add: h w)
  then have "five_crop ?I (Seq [2, 3]) = Inr (replicate 5 ?I)"
    by (simp add: numeral_eq_Suc)
  then show ?thesis using r h w by blast
qed

section \<open>Claims about the affine matrix, rotate, resize, gaussian_blur and normalize\<close>

text \<open>
  Claim C2, as amended. With \<open>a\<close>, \<open>b\<close>, \<open>c\<close>, \<open>d\<close> as in the source (angles converted
  to radians, \<open>cos\<close>, \<open>sin\<close> and \<open>tan\<close> those of the \<^verbatim>\<open>math\<close> module), for every input
  with a non-zero \<open>scale\<close> the builder returns \<open>[d, - b, 0, - c, a, 0]\<close> with every
  entry divided by \<open>scale\<close> and the entries 2 and 5 then corrected by the center and
  translation terms; for \<open>scale = 0\<close> it raises \<^verbatim>\<open>ZeroDivisionError\<close> and returns no
  matrix. Center \<open>(0, 0)\<close>, angle 0, translation \<open>(0, 0)\<close>, scale 1 and shear \<open>(0, 0)\<close>
  give the identity \<open>[1, 0, 0, 0, 1, 0]\<close>, the library being exact at 0
  (\<^verbatim>\<open>radians(0) = 0\<close>, \<^verbatim>\<open>cos(0) = 1\<close>, \<^verbatim>\<open>sin(0) = 0\<close>, \<^verbatim>\<open>tan(0) = 0\<close>).
\<close>

theorem inverse_affine_matrix_formula:
  "(let rot = m_radians math angle; rx = m_radians math sx; ry = m_radians math sy;
        a = m_cos math (rot - ry) / m_cos math ry;
        b = - m_cos math (rot - ry) * m_tan math rx / m_cos math ry - m_sin math rot;
        c = m_sin math (rot - ry) / m_cos math ry;
        d = - m_sin math (rot - ry) * m_tan math rx / m_cos math ry + m_cos math rot
    in (scale \<noteq> 0 \<longrightarrow>
          get_inverse_affine_matrix math [cx, cy] angle [tx, ty] scale [sx, sy] =
            Inr [d / scale, (- b) / scale,
                 d / scale * (- cx - tx) + (- b) / scale * (- cy - ty) + cx,
                 (- c) / scale, a / scale,
                 (- c) / scale * (- cx - tx) + a / scale * (- cy - ty) + cy]) \<and>
       (scale = 0 \<longrightarrow>
          get_inverse_affine_matrix math [cx, cy] angle [tx, ty] scale [sx, sy]
            = Inl ZeroDivisionError)) \<and>
   (m_radians math 0 = 0 \<and> m_cos math 0 = 1 \<and> m_sin math 0 = 0 \<and> m_tan math 0 = 0 \<longrightarrow>
      get_inverse_affine_matrix math [0, 0] 0 [0, 0] 1 [0, 0] = Inr [1, 0, 0, 0, 1, 0])"
proof -
  have ident: "get_inverse_affine_matrix math [0, 0] 0 [0, 0] 1 [0, 0] = Inr [1, 0, 0, 0, 1, 0]"
    if "m_radians math 0 = 0" and "m_cos math 0 = 1" and "m_sin math 0 = 0" and "m_tan math 0 = 0"
    using that by (simp add: get_inverse_affine_matrix_pairs)
  show ?thesis
    unfolding get_inverse_affine_matrix_pairs[of math cx cy angle tx ty scale sx sy] Let_def
    using ident by auto
qed

text \<open>
  An instance with the exact functions: angle 90 and shear \<open>(45, 0)\<close> give
  \<open>a = 0\<close>, \<open>b = - 1\<close>, \<open>c = 1\<close>, \<open>d = - 1\<close>; the identity case is the second part.
\<close>

theorem inverse_affine_matrix_formula_witness:
  "(2::real) \<noteq> 0 \<and>
   get_inverse_affine_matrix exact_math [1, 2] 90 [3, 4] 2 [45, 0]
     = Inr [- 1 / 2, 1 / 2, 0, - 1 / 2, 0, 4] \<and>
   m_radians exact_math 0 = 0 \<and> m_cos exact_math 0 = 1 \<and>
   m_sin exact_math 0 = 0 \<and> m_tan exact_math 0 = 0 \<and>
   get_inverse_affine_matrix exact_math [0, 0] 0 [0, 0] 1 [0, 0] = Inr [1, 0, 0, 0, 1, 0]"
proof -
  have s: "(2::real) \<noteq> 0" by simp
  have r90: "m_radians exact_math 90 = pi / 2" and r45: "m_radians exact_math 45 = pi / 4"
    and r0: "m_radians exact_math 0 = 0"
    by (simp_all add: exact_math_def)
  have z: "m_cos exact_math 0 = 1" "m_sin exact_math 0 = 0" "m_tan exact_math 0 = 0"
    by (simp_all add: exact_math_def)
  have fns: "m_cos exact_math = cos" "m_sin exact_math = sin" "m_tan exact_math = tan"
    by (simp_all add: exact_math_def)
  have one: "get_inverse_affine_matrix exact_math [1, 2] 90 [3, 4] 2 [45, 0]
      = Inr [- 1 / 2, 1 / 2, 0, - 1 / 2, 0, 4]"
    using inverse_affine_matrix_formula[of exact_math 90 45 0 2 1 2 3 4, THEN conjunct1] s
    by (simp add: Let_def r90 r45 r0 fns tan_45)
  have two: "get_inverse_affine_matrix exact_math [0, 0] 0 [0, 0] 1 [0, 0] = Inr [1, 0, 0, 0, 1, 0]"
    using inverse_affine_matrix_formula[of exact_math 0 0 0 1 0 0 0 0, THEN conjunct2] r0 z
    by simp
  show ?thesis using s one two r0 z by blast
qed

text \<open>
  The claim as stated, for all inputs, fails at \<open>scale = 0\<close>: the division of the
  entries by \<open>scale\<close> raises, and no matrix is returned.
\<close>

theorem inverse_affine_scale_zero_counterexample:
  "get_inverse_affine_matrix exact_math [0, 0] 0 [0, 0] 0 [0, 0] = Inl ZeroDivisionError"
  by (simp add: get_inverse_affine_matrix_pairs)

text \<open>
  Claim C3. For a tensor image \<^verbatim>\<open>rotate\<close> never returns an image, whatever the
  parameters. With valid parameters (a legacy code 0 to 5 as \<^verbatim>\<open>resample\<close>, or no
  \<^verbatim>\<open>resample\<close> and an \<^verbatim>\<open>InterpolationMode\<close> or a legacy code 0 to 5 as
  \<^verbatim>\<open>interpolation\<close>; no center or a center of two coordinates) the inverse affine
  matrix is computed and the call then fails with
  \<^verbatim>\<open>NotImplementedError("Tensor rotate is not implemented yet!")\<close>, the error of the
  source for the unsupported primitive and variant.
\<close>

theorem rotate_tensor_not_implemented:
  assumes tensor: "variant img = TensorImage"
  shows "(\<forall>out. snd (rotate_img math F_pil_rotate img angle interpolation expand center fill resample)
            \<noteq> Inr out) \<and>
         ((case resample of
             None \<Rightarrow> (case interpolation of
                         IntCode i \<Rightarrow> 0 \<le> i \<and> i \<le> 5 | Mode m \<Rightarrow> True | OtherInterp \<Rightarrow> False)
           | Some r \<Rightarrow> 0 \<le> r \<and> r \<le> 5) \<and>
          (case center of None \<Rightarrow> True | Some cs \<Rightarrow> length cs = 2) \<longrightarrow>
          (\<exists>matrix.
             get_inverse_affine_matrix math
               (case center of
                  None \<Rightarrow> [0, 0]
                | Some cs \<Rightarrow> map (\<lambda>(c, s). 1 * (c - of_int s * 0.5)) (zip cs (get_image_size img)))
               (- angle) [0, 0] 1 [0, 0] = Inr matrix) \<and>
          snd (rotate_img math F_pil_rotate img angle interpolation expand center fill resample)
            = Inl (NotImplementedError ''Tensor rotate is not implemented yet!''))"
proof (intro conjI allI impI)
  fix out
  show "snd (rotate_img math F_pil_rotate img angle interpolation expand center fill resample) \<noteq> Inr out"
    by (rule rotate_tensor_never_returns[OF tensor])
next
  assume valid: "(case resample of
             None \<Rightarrow> (case interpolation of
                         IntCode i \<Rightarrow> 0 \<le> i \<and> i \<le> 5 | Mode m \<Rightarrow> True | OtherInterp \<Rightarrow> False)
           | Some r \<Rightarrow> 0 \<le> r \<and> r \<le> 5) \<and>
          (case center of None \<Rightarrow> True | Some cs \<Rightarrow> length cs = 2)"
  let ?center_f = "case center of
                  None \<Rightarrow> [0, 0]
                | Some cs \<Rightarrow> map (\<lambda>(c, s). 1 * (c - of_int s * 0.5)) (zip cs (get_image_size img))"
  have "length ?center_f = 2"
    using valid by (intro center_f_length) simp
  then obtain matrix where
    m: "get_inverse_affine_matrix math ?center_f (- angle) [0, 0] 1 [0, 0] = Inr matrix"
    using rotate_center_matrix by blast
  then show "\<exists>matrix. get_inverse_affine_matrix math ?center_f (- angle) [0, 0] 1 [0, 0] = Inr matrix"
    by blast
  show "snd (rotate_img math F_pil_rotate img angle interpolation expand center fill resample)
            = Inl (NotImplementedError ''Tensor rotate is not implemented yet!'')"
  proof (cases resample)
    case None
    show ?thesis
    proof (cases interpolation)
      case (IntCode i)
      with valid None have "0 \<le> i" "i \<le> 5" by auto
      then have "interpolation_modes_from_int i
           = Inr ([NEAREST, LANCZOS, BILINEAR, BICUBIC, BOX, HAMMING] ! nat i)"
        by (rule from_int_legacy)
      then show ?thesis
        unfolding None IntCode by (rule rotate_tensor_int[OF tensor _ m])
    next
      case (Mode md)
      show ?thesis unfolding None Mode by (rule rotate_tensor_mode[OF tensor m])
    next
      case OtherInterp
      with valid None show ?thesis by simp
    qed
  next
    case (Some r)
    with valid have "0 \<le> r" "r \<le> 5" by auto
    then have "interpolation_modes_from_int r
           = Inr ([NEAREST, LANCZOS, BILINEAR, BICUBIC, BOX, HAMMING] ! nat r)"
      by (rule from_int_legacy)
    then show ?thesis
      unfolding Some by (rule rotate_tensor_resample[OF tensor _ m])
  qed
qed

theorem rotate_tensor_not_implemented_witness:
  "variant \<lparr>variant = TensorImage, pixels = [[1, 2], [3, 4::int]]\<rparr> = TensorImage \<and>
   snd (rotate_img exact_math (\<lambda>img angle interpolation expand center (fill::unit). Inr img)
          \<lparr>variant = TensorImage, pixels = [[1, 2], [3, 4::int]]\<rparr> 90 (Mode NEAREST) False
          (Some [1, 1]) () None)
     = Inl (NotImplementedError ''Tensor rotate is not implemented yet!'') \<and>
   (\<exists>matrix. get_inverse_affine_matrix exact_math [0, 0] (- 90) [0, 0] 1 [0, 0] = Inr matrix)"
proof -
  let ?I = "\<lparr>variant = TensorImage, pixels = [[1, 2], [3, 4::int]]\<rparr>"
  let ?F = "\<lambda>(img::int Image) (angle::real) (interpolation::int) (expand::bool)
              (center::real list option) (fill::unit). (Inr img :: error + int Image)"
  have t: "variant ?I = TensorImage" by simp
  have c: "(case Some [1, 1::real] of None \<Rightarrow> [0, 0]
            | Some cs \<Rightarrow> map (\<lambda>(c, s). 1 * (c - of_int s * 0.5)) (zip cs (get_image_size ?I)))
           = [0, 0]"
    by (simp add: get_image_size_def image_width_def image_height_def)
  have "(\<exists>matrix. get_inverse_affine_matrix exact_math [0, 0] (- 90) [0, 0] 1 [0, 0] = Inr matrix) \<and>
        snd (rotate_img exact_math ?F ?I 90 (Mode NEAREST) False (Some [1, 1]) () None)
          = Inl (NotImplementedError ''Tensor rotate is not implemented yet!'')"
    using rotate_tensor_not_implemented[OF t, of exact_math ?F 90 "Mode NEAREST" False "Some [1, 1]" "()" None,
        THEN conjunct2]
    unfolding c by simp
  then show ?thesis using t by blast
qed

text \<open>
  Claim C8. Every legacy integer code 0 to 5 passed to \<^verbatim>\<open>resize\<close> is mapped onto its
  \<^verbatim>\<open>InterpolationMode\<close> (0 NEAREST, 1 LANCZOS, 2 BILINEAR, 3 BICUBIC, 4 BOX, 5 HAMMING);
  one warning is emitted, and the result is the result of \<^verbatim>\<open>resize\<close> called with that
  mode, which emits no warning.
\<close>

theorem resize_legacy_int_codes:
  assumes "0 \<le> i" and "i \<le> 5"
  shows "\<exists>m. m = [NEAREST, LANCZOS, BILINEAR, BICUBIC, BOX, HAMMING] ! nat i \<and>
             interpolation_modes_from_int i = Inr m \<and>
             resize F_pil_resize F_t_resize img size0 (IntCode i)
               = ([interpolation_int_warning],
                  snd (resize F_pil_resize F_t_resize img size0 (Mode m))) \<and>
             fst (resize F_pil_resize F_t_resize img size0 (Mode m)) = []"
proof -
  define m where "m = [NEAREST, LANCZOS, BILINEAR, BICUBIC, BOX, HAMMING] ! nat i"
  have fi: "interpolation_modes_from_int i = Inr m"
    unfolding m_def using assms by (rule from_int_legacy)
  have "resize F_pil_resize F_t_resize img size0 (IntCode i)
               = ([interpolation_int_warning],
                  snd (resize F_pil_resize F_t_resize img size0 (Mode m)))"
    by (simp add: resize_def fi)
  moreover have "fst (resize F_pil_resize F_t_resize img size0 (Mode m)) = []"
    by (simp add: resize_def)
  ultimately show ?thesis using fi m_def by blast
qed

theorem resize_legacy_int_codes_witness:
  "(0::int) \<le> 1 \<and> (1::int) \<le> 5 \<and>
   interpolation_modes_from_int 1 = Inr LANCZOS \<and>
   resize (\<lambda>img size0 code. Inr img) (\<lambda>img size0 mode. Inr img)
       \<lparr>variant = PILImage, pixels = [[1, 2], [3, 4::int]]\<rparr> (Num 1) (IntCode 1)
     = ([interpolation_int_warning],
        snd (resize (\<lambda>img size0 code. Inr img) (\<lambda>img size0 mode. Inr img)
               \<lparr>variant = PILImage, pixels = [[1, 2], [3, 4::int]]\<rparr> (Num 1) (Mode LANCZOS)))"
  using resize_legacy_int_codes[of 1 "\<lambda>img size0 code. Inr img" "\<lambda>img size0 mode. Inr img"
      "\<lparr>variant = PILImage, pixels = [[1, 2], [3, 4::int]]\<rparr>" "Num 1"]
  by simp

text \<open>
  Claim C6. For a valid \<^verbatim>\<open>kernel_size\<close> (two axes, each positive and odd) and no
  \<^verbatim>\<open>sigma\<close>, the checks succeed and the sigma handed to the blur is
  \<open>0.15 * ksize + 0.35\<close> on each axis; \<^verbatim>\<open>gaussian_blur\<close> then behaves as if called with
  that sigma.
\<close>

theorem gaussian_blur_default_sigma:
  assumes len: "length (kernel_axes kernel_size) = 2"
    and ok: "list_all (\<lambda>k. 0 < k \<and> odd k) (kernel_axes kernel_size)"
  shows "gaussian_blur_params kernel_size None
           = Inr (kernel_axes kernel_size,
                  map (\<lambda>ksize. 0.15 * of_int ksize + 0.35) (kernel_axes kernel_size)) \<and>
         gaussian_blur F_t_gaussian_blur to_tensor to_pil_image img kernel_size None
           = gaussian_blur F_t_gaussian_blur to_tensor to_pil_image img kernel_size
               (Some (SSeq (map (\<lambda>ksize. 0.15 * of_int ksize + 0.35) (kernel_axes kernel_size))))"
proof -
  let ?ks = "kernel_axes kernel_size"
  have nother: "kernel_size \<noteq> KOther"
    using len by (auto simp: kernel_axes_def)
  have comm: "map (\<lambda>ksize. of_int ksize * 0.15 + 0.35) ?ks
                = map (\<lambda>ksize. 0.15 * of_int ksize + (0.35::real)) ?ks"
    by (simp add: mult.commute)
  have l2: "length (map (\<lambda>ksize. of_int ksize * 0.15 + (0.35::real)) ?ks) = 2"
    using len by simp
  have p: "gaussian_blur_params kernel_size None
         = Inr (?ks, map (\<lambda>ksize. of_int ksize * 0.15 + 0.35) ?ks)"
    using nother len odd_positive_passes[OF ok] default_sigma_positive[OF ok]
    by (cases kernel_size) (simp_all add: gaussian_blur_params_def kernel_axes_def Let_def)
  have q: "gaussian_blur_params kernel_size
             (Some (SSeq (map (\<lambda>ksize. of_int ksize * 0.15 + 0.35) ?ks)))
         = Inr (?ks, map (\<lambda>ksize. of_int ksize * 0.15 + 0.35) ?ks)"
    using nother len odd_positive_passes[OF ok] default_sigma_positive[OF ok]
    by (cases kernel_size) (simp_all add: gaussian_blur_params_def kernel_axes_def Let_def)
  show ?thesis
    using p q unfolding comm by (simp add: gaussian_blur_def)
qed

theorem gaussian_blur_default_sigma_witness:
  "length (kernel_axes (KSeq [3, 5])) = 2 \<and>
   list_all (\<lambda>k. 0 < k \<and> odd k) (kernel_axes (KSeq [3, 5])) \<and>
   gaussian_blur_params (KSeq [3, 5]) None = Inr ([3, 5], [0.8, 1.1])"
proof -
  have l: "length (kernel_axes (KSeq [3, 5])) = 2" by (simp add: kernel_axes_def)
  have o: "list_all (\<lambda>k. 0 < k \<and> odd k) (kernel_axes (KSeq [3, 5]))"
    by (simp add: kernel_axes_def)
  have "gaussian_blur_params (KSeq [3, 5]) None = Inr ([3, 5], [0.8, 1.1])"
    using gaussian_blur_default_sigma[OF l o, THEN conjunct1] by (simp add: kernel_axes_def)
  then show ?thesis using l o by blast
qed

text \<open>
  Claim C7. When the kernel size of some axis is not a positive odd integer,
  \<^verbatim>\<open>gaussian_blur\<close> raises a \<^verbatim>\<open>ValueError\<close>; the error is decided by the checks alone, so
  it is the same for every blur backend, conversion and image: no pixel work is done.
\<close>

theorem gaussian_blur_kernel_check:
  assumes "list_ex (\<lambda>k. \<not> (0 < k \<and> odd k)) (kernel_axes kernel_size)"
  shows "\<exists>msg. gaussian_blur_params kernel_size sigma = Inl (ValueError msg) \<and>
           (\<forall>F_t_gaussian_blur to_tensor to_pil_image img.
              gaussian_blur F_t_gaussian_blur to_tensor to_pil_image img kernel_size sigma
                = Inl (ValueError msg))"
proof -
  let ?ks = "kernel_axes kernel_size"
  have bad: "list_ex (\<lambda>ksize. ksize mod 2 = 0 \<or> ksize < 0) ?ks"
    using assms unfolding kernel_test_iff .
  have nother: "kernel_size \<noteq> KOther"
    using assms by (auto simp: kernel_axes_def)
  have "\<exists>msg. gaussian_blur_params kernel_size sigma = Inl (ValueError msg)"
  proof (cases "length ?ks = 2")
    case True
    then show ?thesis using nother bad
      by (cases kernel_size) (simp_all add: gaussian_blur_params_def kernel_axes_def Let_def)
  next
    case False
    then show ?thesis using nother
      by (cases kernel_size) (simp_all add: gaussian_blur_params_def kernel_axes_def Let_def)
  qed
  then obtain msg where m: "gaussian_blur_params kernel_size sigma = Inl (ValueError msg)"
    by blast
  then show ?thesis by (simp add: gaussian_blur_def)
qed

theorem gaussian_blur_kernel_check_witness:
  "list_ex (\<lambda>k. \<not> (0 < k \<and> odd k)) (kernel_axes (KSeq [4, 3])) \<and>
   gaussian_blur_params (KSeq [4, 3]) None
     = Inl (ValueError ''kernel_size should have odd and positive integers.'') \<and>
   gaussian_blur (\<lambda>img ks sigma. Inr img) Inr Inr
       \<lparr>variant = TensorImage, pixels = [[1, 2], [3, 4::int]]\<rparr> (KSeq [4, 3]) None
     = Inl (ValueError ''kernel_size should have odd and positive integers.'')"
proof -
  have b: "list_ex (\<lambda>k. \<not> (0 < k \<and> odd k)) (kernel_axes (KSeq [4, 3]))"
    by (simp add: kernel_axes_def)
  have p: "gaussian_blur_params (KSeq [4, 3]) None
     = Inl (ValueError ''kernel_size should have odd and positive integers.'')"
    by (simp add: gaussian_blur_params_def)
  obtain msg where m: "gaussian_blur_params (KSeq [4, 3]) None = Inl (ValueError msg)"
    and g: "\<And>F (tt :: int Image \<Rightarrow> error + int Image) tp img.
              gaussian_blur F tt tp img (KSeq [4, 3]) None = Inl (ValueError msg)"
    using gaussian_blur_kernel_check[OF b, of None] by blast
  from m p have "msg = ''kernel_size should have odd and positive integers.''" by simp
  with g b p show ?thesis by blast
qed

text \<open>
  Claim C9. Let the input be a tensor on the heap. With \<open>inplace = False\<close> every tensor
  that existed before the call, the input among them, has its contents unchanged after
  it, on success and on every error; on success the result is a tensor allocated by the
  call. With \<open>inplace = True\<close> a successful call returns the input tensor itself, with
  new contents. On the error paths of a wrong dtype, fewer than three dimensions or a
  zero in \<open>std\<close>, the call fails and the tensors that existed are unchanged, whatever
  \<open>inplace\<close> is.
\<close>

theorem normalize_out_of_place_frame:
  assumes valid: "a < length h"
    and run: "normalize_tensor pil_normalize sub_op div_op h (TensorInput a) mean std inplace = (h', res)"
  shows "(\<not> inplace \<longrightarrow>
            take (length h) h' = h \<and>
            (\<forall>out. res = Inr out \<longrightarrow> out = TensorOut (length h) \<and> length h < length h')) \<and>
         (inplace \<longrightarrow>
            (\<forall>out. res = Inr out \<longrightarrow> out = TensorOut a \<and> h' = h[a := h' ! a])) \<and>
         (dtype (h ! a) \<noteq> Float32 \<or> length (shape (h ! a)) < 3 \<or> list_ex (\<lambda>s. s = 0) std
            \<longrightarrow> (\<exists>e. res = Inl e) \<and> take (length h) h' = h)"
proof -
  have out_of_place: "take (length h) h' = h \<and>
      (\<forall>out. res = Inr out \<longrightarrow> out = TensorOut (length h) \<and> length h < length h')"
    if "\<not> inplace"
    using run that
    by (auto simp: normalize_tensor_def Let_def clone_def take_update_beyond
        split: if_splits sum.splits)
  have in_place: "\<forall>out. res = Inr out \<longrightarrow> out = TensorOut a \<and> h' = h[a := h' ! a]"
    if "inplace"
    using run that valid
    by (auto simp: normalize_tensor_def Let_def split: if_splits sum.splits)
  have errors: "(\<exists>e. res = Inl e) \<and> take (length h) h' = h"
    if "dtype (h ! a) \<noteq> Float32 \<or> length (shape (h ! a)) < 3 \<or> list_ex (\<lambda>s. s = 0) std"
    using run that
    by (auto simp: normalize_tensor_def Let_def clone_def split: if_splits sum.splits)
  show ?thesis
    using out_of_place in_place errors by blast
qed

theorem normalize_out_of_place_frame_witness:
  "(0::nat) < length [\<lparr>dtype = Float32, shape = [1, 1, 2], data = [1, 3]\<rparr>] \<and>
   normalize_tensor (\<lambda>(p::unit) mean std. ())
       (\<lambda>t m. Inr (t\<lparr>data := map (\<lambda>x. x - hd m) (data t)\<rparr>))
       (\<lambda>t s. Inr (t\<lparr>data := map (\<lambda>x. x / hd s) (data t)\<rparr>))
       [\<lparr>dtype = Float32, shape = [1, 1, 2], data = [1, 3]\<rparr>] (TensorInput 0) [1] [2] False
     = ([\<lparr>dtype = Float32, shape = [1, 1, 2], data = [1, 3]\<rparr>,
         \<lparr>dtype = Float32, shape = [1, 1, 2], data = [0, 1]\<rparr>],
        Inr (TensorOut 1)) \<and>
   take (length [\<lparr>dtype = Float32, shape = [1, 1, 2], data = [1, 3]\<rparr>])
       [\<lparr>dtype = Float32, shape = [1, 1, 2], data = [1, 3]\<rparr>,
        \<lparr>dtype = Float32, shape = [1, 1, 2], data = [0, 1]\<rparr>]
     = [\<lparr>dtype = Float32, shape = [1, 1, 2], data = [1, 3]\<rparr>]"
proof -
  let ?t = "\<lparr>dtype = Float32, shape = [1, 1, 2], data = [1, 3]\<rparr>"
  let ?t' = "\<lparr>dtype = Float32, shape = [1, 1, 2], data = [0, 1]\<rparr>"
  let ?sub = "\<lambda>t m. (Inr (t\<lparr>data := map (\<lambda>x. x - hd m) (data t)\<rparr>) :: error + tensor)"
  let ?div = "\<lambda>t s. (Inr (t\<lparr>data := map (\<lambda>x. x / hd s) (data t)\<rparr>) :: error + tensor)"
  have v: "(0::nat) < length [?t]" by simp
  have run: "normalize_tensor (\<lambda>(p::unit) mean std. ()) ?sub ?div [?t] (TensorInput 0) [1] [2] False
     = ([?t, ?t'], Inr (TensorOut 1))"
    by (simp add: normalize_tensor_def clone_def)
  have "take (length [?t]) [?t, ?t'] = [?t]"
    using normalize_out_of_place_frame[OF v run] by simp
  then show ?thesis using v run by blast
qed

end
